theory Spec2Isabelle
  imports Main
begin

section \<open>Options (options.go)\<close>

text \<open>
  The \<^verbatim>\<open>Options\<close> struct of the tracing package: two collector URLs, where the
  empty string means that the backend is disabled, and the switch of the log sink.
\<close>

record Options =
  ZipkinURL :: string
  JaegerURL :: string
  LogTraceSpans :: bool

text \<open>
  A Go \<^verbatim>\<open>error\<close> value is identified by the message its \<^verbatim>\<open>Error()\<close> method
  returns. \<^verbatim>\<open>errors.New\<close> builds one from a message; the only use of
  \<^verbatim>\<open>fmt.Errorf\<close> in the package has a format that ends in a single \<^verbatim>\<open>%v\<close> verb
  applied to an error, which prints that error's message.
\<close>

datatype error = Error string

fun error_Error :: "error \<Rightarrow> string" where
  "error_Error (Error msg) = msg"

definition errors_New :: "string \<Rightarrow> error" where
  "errors_New msg = Error msg"

definition fmt_Errorf :: "string \<Rightarrow> error \<Rightarrow> error" where
  "fmt_Errorf prefix err = Error (prefix @ error_Error err)"

text \<open>
  \<^verbatim>\<open>func (o *Options) Validate() error\<close>; the result \<open>None\<close> is Go's \<^verbatim>\<open>nil\<close>.
  The receiver \<^verbatim>\<open>o\<close> is \<open>opts\<close> here.
\<close>

definition Validate :: "Options \<Rightarrow> error option" where
  "Validate opts =
     (if JaegerURL opts \<noteq> '''' \<and> ZipkinURL opts \<noteq> ''''
      then Some (errors_New ''can't have Jaeger and Zipkin outputs active simultaneously'')
      else None)"

text \<open>\<^verbatim>\<open>func (o *Options) TracingEnabled() bool\<close>\<close>

definition TracingEnabled :: "Options \<Rightarrow> bool" where
  "TracingEnabled opts \<longleftrightarrow> JaegerURL opts \<noteq> '''' \<or> ZipkinURL opts \<noteq> '''' \<or> LogTraceSpans opts"


section \<open>Collaborators of the configurator\<close>

text \<open>
  \<^verbatim>\<open>time.Duration\<close> counts nanoseconds; \<^verbatim>\<open>httpTimeout = 5 * time.Second\<close>.
\<close>

type_synonym duration = int

definition time_Second :: duration where
  "time_Second = 1000000000"

definition httpTimeout :: duration where
  "httpTimeout = 5 * time_Second"

text \<open>\<^verbatim>\<open>type spanLogger struct{}\<close> and the package variable \<^verbatim>\<open>logger = spanLogger{}\<close>.\<close>

datatype spanLogger = SpanLogger

definition logger :: spanLogger where
  "logger = SpanLogger"

text \<open>
  The functional options handed to the two transport constructors, the transports, and
  the reporters that \<^verbatim>\<open>configure\<close> puts into its \<^verbatim>\<open>reporters\<close> slice: a remote reporter
  around a transport, the span logger itself, or the composite of several reporters.
\<close>

datatype zipkin_HTTPOption = zipkin_HTTPLogger spanLogger | zipkin_HTTPTimeout duration

datatype transport_HTTPOption = transport_HTTPTimeout duration

datatype zipkin_HTTPTransport = ZipkinHTTPTransport string "zipkin_HTTPOption list"

datatype transport =
    ZipkinTransport zipkin_HTTPTransport
  | JaegerHTTPTransport string "transport_HTTPOption list"

datatype reporter =
    RemoteReporter transport
  | LoggerReporter spanLogger
  | CompositeReporter "reporter list"

text \<open>
  \<^verbatim>\<open>type newZipkin func(url string, options ...zipkin.HTTPOption)
  (*zipkin.HTTPTransport, error)\<close>: the constructor either fails with an error or yields
  a transport.
\<close>

type_synonym newZipkin = "string \<Rightarrow> zipkin_HTTPOption list \<Rightarrow> error + zipkin_HTTPTransport"

text \<open>
  The arguments of \<^verbatim>\<open>jaeger.NewTracer\<close>: the sampler (\<^verbatim>\<open>jaeger.NewConstSampler\<close>),
  the tracer options (\<^verbatim>\<open>PoolSpans\<close>, \<^verbatim>\<open>Injector\<close>, \<^verbatim>\<open>Extractor\<close>), the carrier
  formats of OpenTracing and the propagator
  (\<^verbatim>\<open>zp.NewZipkinB3HTTPHeaderPropagator\<close>). A tracer object records the arguments it
  was built from.
\<close>

datatype sampler_t = ConstSampler bool

datatype format = HTTPHeaders | TextMap | Binary

datatype propagator = ZipkinB3HTTPHeaderPropagator

datatype tracerOption =
    PoolSpans bool
  | Injector format propagator
  | Extractor format propagator

record jaegerTracer =
  t_serviceName :: string
  t_sampler :: sampler_t
  t_reporter :: reporter
  t_options :: "tracerOption list"

text \<open>
  A value of the interface \<^verbatim>\<open>ot.Tracer\<close>: \<^verbatim>\<open>nil\<close>, the empty struct
  \<^verbatim>\<open>ot.NoopTracer{}\<close>, a pointer to a tracer built by \<^verbatim>\<open>jaeger.NewTracer\<close> (its
  address is its index in the heap of tracer objects), or a tracer of some other
  implementation that another part of the process installed. Go's \<^verbatim>\<open>==\<close> on these
  interface values is equality of this type.
\<close>

datatype tracer_ref = NilTracer | NoopTracer | JaegerTracer nat | OtherTracer nat

text \<open>The \<^verbatim>\<open>io.Closer\<close> that \<^verbatim>\<open>jaeger.NewTracer\<close> returns beside the tracer.\<close>

datatype closer_ref = TracerCloser nat

text \<open>
  \<^verbatim>\<open>type holder struct { closer io.Closer; tracer ot.Tracer }\<close>; the zero value
  \<^verbatim>\<open>holder{}\<close> has a \<^verbatim>\<open>nil\<close> closer and a \<^verbatim>\<open>nil\<close> tracer.
\<close>

record holder =
  closer :: "closer_ref option"
  tracer :: tracer_ref

definition holder_zero :: holder where
  "holder_zero = \<lparr>closer = None, tracer = NilTracer\<rparr>"

text \<open>
  The state of the process that the package reads and writes: the global tracer slot of
  OpenTracing, the heap of tracer objects built so far, and the log of the calls made to
  the collaborating libraries, in the order they were made.
\<close>

datatype call =
    Call_newZipkin string "zipkin_HTTPOption list"
  | Call_NewHTTPTransport string "transport_HTTPOption list"
  | Call_NewRemoteReporter transport
  | Call_NewCompositeReporter "reporter list"
  | Call_NewTracer nat
  | Call_SetGlobalTracer tracer_ref
  | Call_Close closer_ref

record world =
  globalTracer :: tracer_ref
  tracers :: "jaegerTracer list"
  calls :: "call list"

definition logCall :: "call \<Rightarrow> world \<Rightarrow> world" where
  "logCall c w = w\<lparr>calls := calls w @ [c]\<rparr>"

text \<open>
  Modelled from the spec: the global tracer registry of OpenTracing
  (\<^verbatim>\<open>ot.GlobalTracer()\<close> and \<^verbatim>\<open>ot.SetGlobalTracer(t)\<close>) is not part of the
  sources. By the specification it is a "process-wide singleton holding the active
  tracer", read and replaced through get and set.
\<close>

definition ot_GlobalTracer :: "world \<Rightarrow> tracer_ref" where
  "ot_GlobalTracer w = globalTracer w"

definition ot_SetGlobalTracer :: "tracer_ref \<Rightarrow> world \<Rightarrow> world" where
  "ot_SetGlobalTracer t w = logCall (Call_SetGlobalTracer t) (w\<lparr>globalTracer := t\<rparr>)"

text \<open>
  Modelled from the spec: the constructors of the client library are not part of the
  sources. By the specification the tracer constructor takes "service name, sampler,
  reporter, options including injector/extractor/pooling", and the transport
  constructors take a URL and their options; \<^verbatim>\<open>configure\<close> receives from
  \<^verbatim>\<open>jaeger.NewTracer\<close> a tracer and the closer of its resources. Each constructor
  yields a value that records its arguments, and each call is logged.
  \<^verbatim>\<open>jaeger.NewTracer\<close> allocates the tracer object at a fresh address of the heap and
  returns the pointer.
\<close>

definition jaeger_NewTracer ::
  "string \<Rightarrow> sampler_t \<Rightarrow> reporter \<Rightarrow> tracerOption list \<Rightarrow> world \<Rightarrow> (tracer_ref \<times> closer_ref) \<times> world"
where
  "jaeger_NewTracer serviceName smp rep opts w =
     (let p = length (tracers w);
          obj = \<lparr>t_serviceName = serviceName, t_sampler = smp, t_reporter = rep, t_options = opts\<rparr>
      in ((JaegerTracer p, TracerCloser p),
          logCall (Call_NewTracer p) (w\<lparr>tracers := tracers w @ [obj]\<rparr>)))"

definition jaeger_NewRemoteReporter :: "transport \<Rightarrow> world \<Rightarrow> reporter \<times> world" where
  "jaeger_NewRemoteReporter t w = (RemoteReporter t, logCall (Call_NewRemoteReporter t) w)"

definition transport_NewHTTPTransport ::
  "string \<Rightarrow> transport_HTTPOption list \<Rightarrow> world \<Rightarrow> transport \<times> world"
where
  "transport_NewHTTPTransport url opts w =
     (JaegerHTTPTransport url opts, logCall (Call_NewHTTPTransport url opts) w)"

definition jaeger_NewCompositeReporter :: "reporter list \<Rightarrow> world \<Rightarrow> reporter \<times> world" where
  "jaeger_NewCompositeReporter rs w =
     (CompositeReporter rs, logCall (Call_NewCompositeReporter rs) w)"

text \<open>The package variables \<^verbatim>\<open>sampler\<close> and \<^verbatim>\<open>poolSpans\<close>.\<close>

definition sampler :: sampler_t where
  "sampler = ConstSampler True"

definition poolSpans :: tracerOption where
  "poolSpans = PoolSpans False"


section \<open>The configurator\<close>

text \<open>
  The body of \<^verbatim>\<open>configure\<close> between validation and composition appends to the local
  slice \<^verbatim>\<open>reporters\<close> in three consecutive \<^verbatim>\<open>if\<close> statements. Each of them is one
  function here, from the slice and the state to the slice and the state; the first can
  leave \<^verbatim>\<open>configure\<close> early with an error. The local variable \<^verbatim>\<open>trans\<close> is
  \<open>tport\<close> here.
\<close>

definition zipkinOptions :: "zipkin_HTTPOption list" where
  "zipkinOptions = [zipkin_HTTPLogger logger, zipkin_HTTPTimeout httpTimeout]"

definition addZipkin ::
  "Options \<Rightarrow> newZipkin \<Rightarrow> reporter list \<times> world \<Rightarrow> error \<times> world + reporter list \<times> world"
where
  "addZipkin options nz rw =
     (case rw of (reporters, w) \<Rightarrow>
        if ZipkinURL options \<noteq> '''' then
          (let w1 = logCall (Call_newZipkin (ZipkinURL options) zipkinOptions) w in
           case nz (ZipkinURL options) zipkinOptions of
             Inl err \<Rightarrow> Inl (fmt_Errorf ''could not build zipkin reporter: '' err, w1)
           | Inr tport \<Rightarrow>
               (case jaeger_NewRemoteReporter (ZipkinTransport tport) w1 of
                  (r, w2) \<Rightarrow> Inr (reporters @ [r], w2)))
        else Inr (reporters, w))"

definition addJaeger :: "Options \<Rightarrow> reporter list \<times> world \<Rightarrow> reporter list \<times> world" where
  "addJaeger options rw =
     (case rw of (reporters, w) \<Rightarrow>
        if JaegerURL options \<noteq> '''' then
          (case transport_NewHTTPTransport (JaegerURL options)
                  [transport_HTTPTimeout httpTimeout] w of
             (tport, w1) \<Rightarrow>
               (case jaeger_NewRemoteReporter tport w1 of
                  (r, w2) \<Rightarrow> (reporters @ [r], w2)))
        else (reporters, w))"

definition addLog :: "Options \<Rightarrow> reporter list \<times> world \<Rightarrow> reporter list \<times> world" where
  "addLog options rw =
     (case rw of (reporters, w) \<Rightarrow>
        if LogTraceSpans options then (reporters @ [LoggerReporter logger], w)
        else (reporters, w))"

text \<open>
  The reporters of one \<^verbatim>\<open>configure\<close> call, from the empty slice
  \<^verbatim>\<open>make([]jaeger.Reporter, 0, 3)\<close>.
\<close>

definition buildReporters ::
  "Options \<Rightarrow> newZipkin \<Rightarrow> world \<Rightarrow> error \<times> world + reporter list \<times> world"
where
  "buildReporters options nz w =
     (case addZipkin options nz ([], w) of
        Inl ew \<Rightarrow> Inl ew
      | Inr rw \<Rightarrow> Inr (addLog options (addJaeger options rw)))"

text \<open>
  \<^verbatim>\<open>func configure(serviceName string, options *Options, nz newZipkin)
  (io.Closer, error)\<close>. The result pairs the returned \<^verbatim>\<open>io.Closer\<close> (\<open>None\<close> is the
  \<^verbatim>\<open>nil\<close> interface) with the returned error (\<open>None\<close> is \<^verbatim>\<open>nil\<close>).
\<close>

definition tracerOptions :: "tracerOption list" where
  "tracerOptions =
     (let zipkinPropagator = ZipkinB3HTTPHeaderPropagator;
          injector = Injector HTTPHeaders zipkinPropagator;
          extractor = Extractor HTTPHeaders zipkinPropagator
      in [poolSpans, injector, extractor])"

definition configure ::
  "string \<Rightarrow> Options \<Rightarrow> newZipkin \<Rightarrow> world \<Rightarrow> (holder option \<times> error option) \<times> world"
where
  "configure serviceName options nz w =
     (case Validate options of
        Some err \<Rightarrow> ((None, Some err), w)
      | None \<Rightarrow>
          (case buildReporters options nz w of
             Inl (err, w1) \<Rightarrow> ((None, Some err), w1)
           | Inr (reporters, w1) \<Rightarrow>
               if length reporters = 0 then ((Some holder_zero, None), w1)
               else
                 (case (if length reporters = 1 then (reporters ! 0, w1)
                        else jaeger_NewCompositeReporter reporters w1) of
                    (rep, w2) \<Rightarrow>
                      (case jaeger_NewTracer serviceName sampler rep tracerOptions w2 of
                         ((tr, cl), w3) \<Rightarrow>
                           ((Some \<lparr>closer = Some cl, tracer = tr\<rparr>, None),
                            ot_SetGlobalTracer tr w3)))))"

text \<open>
  \<^verbatim>\<open>func Configure(serviceName string, options *Options) (io.Closer, error)\<close> passes
  the constructor \<^verbatim>\<open>zipkin.NewHTTPTransport\<close> of the client library, which is a
  parameter here.
\<close>

definition Configure ::
  "newZipkin \<Rightarrow> string \<Rightarrow> Options \<Rightarrow> world \<Rightarrow> (holder option \<times> error option) \<times> world"
where
  "Configure zipkin_NewHTTPTransport serviceName options w =
     configure serviceName options zipkin_NewHTTPTransport w"


section \<open>Closing a handle\<close>

text \<open>
  Modelled from the spec: the \<^verbatim>\<open>Close\<close> method of the closer that the client library
  returned is not part of the sources; it releases "the backend transport/reporter
  resources this handle owns". The call is logged.
\<close>

definition closer_Close :: "closer_ref \<Rightarrow> world \<Rightarrow> world" where
  "closer_Close c w = logCall (Call_Close c) w"

text \<open>\<^verbatim>\<open>func (h holder) Close() error\<close>\<close>

definition holder_Close :: "holder \<Rightarrow> world \<Rightarrow> error option \<times> world" where
  "holder_Close h w =
     (let w1 = (if ot_GlobalTracer w = tracer h then ot_SetGlobalTracer NoopTracer w else w);
          w2 = (case closer h of Some c \<Rightarrow> closer_Close c w1 | None \<Rightarrow> w1)
      in (None, w2))"

text \<open>
  A method call on an \<^verbatim>\<open>io.Closer\<close> interface value: on the \<^verbatim>\<open>nil\<close> interface the
  Go runtime panics with a nil pointer dereference, otherwise the method of the holder
  runs.
\<close>

datatype panic = NilPointerDereference

definition io_Closer_Close :: "holder option \<Rightarrow> world \<Rightarrow> (panic + error option) \<times> world" where
  "io_Closer_Close c w =
     (case c of
        None \<Rightarrow> (Inl NilPointerDereference, w)
      | Some h \<Rightarrow> (case holder_Close h w of (e, w') \<Rightarrow> (Inr e, w')))"


section \<open>The usage sample of the package\<close>

text \<open>
  The function \<^verbatim>\<open>setupTracing\<close> that the package gives as its sample: the options
  come from the flags, \<^verbatim>\<open>log.Fatal\<close> prints its arguments and ends the process, a
  panic ends the function, and the deferred \<^verbatim>\<open>tracer.Close()\<close> of the last branch
  runs when the function returns. The local variable \<^verbatim>\<open>tracer\<close> is \<open>trc\<close> here.
\<close>

datatype exit = Exit_Fatal string | Exit_Panic panic | Exit_Return

definition setupTracing :: "newZipkin \<Rightarrow> Options \<Rightarrow> world \<Rightarrow> exit \<times> world" where
  "setupTracing zipkin_NewHTTPTransport tOpts w =
     (case Validate tOpts of
        Some err \<Rightarrow> (Exit_Fatal (''Invalid options for tracing: '' @ error_Error err), w)
      | None \<Rightarrow>
          if TracingEnabled tOpts then
            (case Configure zipkin_NewHTTPTransport ''myapp'' tOpts w of
               ((trc, err), w1) \<Rightarrow>
                 (case err of
                    Some e \<Rightarrow>
                      (case io_Closer_Close trc w1 of
                         (Inl p, w2) \<Rightarrow> (Exit_Panic p, w2)
                       | (Inr _, w2) \<Rightarrow>
                           (Exit_Fatal (''Failed to configure tracing: '' @ error_Error e), w2))
                  | None \<Rightarrow>
                      (case io_Closer_Close trc w1 of
                         (Inl p, w2) \<Rightarrow> (Exit_Panic p, w2)
                       | (Inr _, w2) \<Rightarrow> (Exit_Return, w2))))
          else (Exit_Return, w))"


section \<open>What reporters do\<close>

text \<open>
  A finished span, as far as the package looks at it: the results of
  \<^verbatim>\<open>span.OperationName()\<close> and \<^verbatim>\<open>span.String()\<close>. The effects of reporting and
  closing are the log lines written through \<^verbatim>\<open>glog\<close> and the operations on the
  transports.
\<close>

record span =
  operationName :: string
  spanString :: string

datatype effect =
    Glog_Infof string
  | Glog_Error string
  | Transport_Send transport span
  | Transport_Close transport

text \<open>The methods \<^verbatim>\<open>Report\<close>, \<^verbatim>\<open>Close\<close> and \<^verbatim>\<open>Error\<close> of \<^verbatim>\<open>spanLogger\<close>.\<close>

definition spanLogger_Report :: "spanLogger \<Rightarrow> span \<Rightarrow> effect list" where
  "spanLogger_Report l sp =
     [Glog_Infof (''Reporting span operation: '' @ operationName sp @ '' span: '' @ spanString sp)]"

definition spanLogger_Close :: "spanLogger \<Rightarrow> effect list" where
  "spanLogger_Close l = []"

definition spanLogger_Error :: "spanLogger \<Rightarrow> string \<Rightarrow> effect list" where
  "spanLogger_Error l msg = [Glog_Error msg]"

text \<open>
  Modelled from the spec: the reporters of the client library (\<^verbatim>\<open>jaeger.NewRemoteReporter\<close>
  and \<^verbatim>\<open>jaeger.NewCompositeReporter\<close>) are not part of the sources. By the
  specification a reporter transmits finished spans to its collector, and for the
  composite "reporting a span or closing fans out to every member in construction
  order", forwarding "to each member once per invocation, in stable iteration order".
  The loop over the members is the second function of each pair.
\<close>

fun reporter_Report :: "reporter \<Rightarrow> span \<Rightarrow> effect list"
  and reporters_Report :: "reporter list \<Rightarrow> span \<Rightarrow> effect list"
where
  "reporter_Report (RemoteReporter t) sp = [Transport_Send t sp]"
| "reporter_Report (LoggerReporter l) sp = spanLogger_Report l sp"
| "reporter_Report (CompositeReporter rs) sp = reporters_Report rs sp"
| "reporters_Report [] sp = []"
| "reporters_Report (r # rs) sp = reporter_Report r sp @ reporters_Report rs sp"

fun reporter_Close :: "reporter \<Rightarrow> effect list"
  and reporters_Close :: "reporter list \<Rightarrow> effect list"
where
  "reporter_Close (RemoteReporter t) = [Transport_Close t]"
| "reporter_Close (LoggerReporter l) = spanLogger_Close l"
| "reporter_Close (CompositeReporter rs) = reporters_Close rs"
| "reporters_Close [] = []"
| "reporters_Close (r # rs) = reporter_Close r @ reporters_Close rs"


section \<open>The codecs of a tracer\<close>







section \<open>Observing one call\<close>

text \<open>
  The calls to the libraries and the tracer objects that were added between a state and
  a later one.
\<close>

definition newCalls :: "world \<Rightarrow> world \<Rightarrow> call list" where
  "newCalls w w' = drop (length (calls w)) (calls w')"

definition newTracers :: "world \<Rightarrow> world \<Rightarrow> jaegerTracer list" where
  "newTracers w w' = drop (length (tracers w)) (tracers w')"


section \<open>Concrete states, options and constructors\<close>

text \<open>
  The state of a process in which nothing was installed (the global tracer of
  OpenTracing starts as the no-op tracer), the option values of the scenarios, and two
  substitutes for the Zipkin constructor: one that always succeeds and one that always
  fails.
\<close>

definition initialWorld :: world where
  "initialWorld = \<lparr>globalTracer = NoopTracer, tracers = [], calls = []\<rparr>"

definition nz_ok :: newZipkin where
  "nz_ok url options = Inr (ZipkinHTTPTransport url options)"

definition nz_failing :: newZipkin where
  "nz_failing url options = Inl (errors_New ''unsupported protocol scheme'')"

definition zipkinOnly :: Options where
  "zipkinOnly =
     \<lparr>ZipkinURL = ''http://zipkin:9411/api/v1/spans'', JaegerURL = '''',
      LogTraceSpans = False\<rparr>"

definition jaegerOnly :: Options where
  "jaegerOnly =
     \<lparr>ZipkinURL = '''', JaegerURL = ''http://jaeger:14268/api/traces?format=jaeger.thrift'',
      LogTraceSpans = False\<rparr>"

definition zipkinAndLog :: Options where
  "zipkinAndLog =
     \<lparr>ZipkinURL = ''http://zipkin:9411/api/v1/spans'', JaegerURL = '''',
      LogTraceSpans = True\<rparr>"

definition bothURLs :: Options where
  "bothURLs =
     \<lparr>ZipkinURL = ''http://zipkin:9411/api/v1/spans'',
      JaegerURL = ''http://jaeger:14268/api/traces?format=jaeger.thrift'',
      LogTraceSpans = False\<rparr>"

definition noOptions :: Options where
  "noOptions = \<lparr>ZipkinURL = '''', JaegerURL = '''', LogTraceSpans = False\<rparr>"


text \<open>
  Two \<^verbatim>\<open>configure\<close> calls in a row from the initial state: the first with the Zipkin
  backend, the second with the Jaeger backend.
\<close>

definition resultA :: "(holder option \<times> error option) \<times> world" where
  "resultA = configure ''a'' zipkinOnly nz_ok initialWorld"

definition resultB :: "(holder option \<times> error option) \<times> world" where
  "resultB = configure ''b'' jaegerOnly nz_ok (snd resultA)"


text \<open>A finished span to report.\<close>

definition spanGet :: span where
  "spanGet = \<lparr>operationName = ''GET /'', spanString = ''1:2:0:1''\<rparr>"


section \<open>Properties of the options\<close>

text \<open>
  C8: \<^verbatim>\<open>TracingEnabled\<close> is true exactly when one of the two URLs is not empty or the
  log switch is on. It is a function of the options alone: it takes no state and
  returns only the truth value.
\<close>

theorem TracingEnabled_iff:
  "TracingEnabled opts \<longleftrightarrow> (ZipkinURL opts \<noteq> '''' \<or> JaegerURL opts \<noteq> '''' \<or> LogTraceSpans opts)"
  by (auto simp: TracingEnabled_def)

theorem TracingEnabled_iff_witness:
  "TracingEnabled \<lparr>ZipkinURL = ''http://zipkin:9411/api/v1/spans'', JaegerURL = '''',
                   LogTraceSpans = False\<rparr>
   \<and> \<not> TracingEnabled \<lparr>ZipkinURL = '''', JaegerURL = '''', LogTraceSpans = False\<rparr>"
  using TracingEnabled_iff [of "\<lparr>ZipkinURL = ''http://zipkin:9411/api/v1/spans'',
                                 JaegerURL = '''', LogTraceSpans = False\<rparr>"]
        TracingEnabled_iff [of "\<lparr>ZipkinURL = '''', JaegerURL = '''', LogTraceSpans = False\<rparr>"]
  by simp

section \<open>Basic facts about the configurator\<close>

text \<open>
  The three statements that fill the slice either stop at a failing Zipkin constructor,
  after the one call to it, or yield the reporters of the enabled backends in the order
  Zipkin, Jaeger, log. After them \<^verbatim>\<open>configure\<close> either returns the zero holder or
  allocates one tracer and installs it.
\<close>

lemmas stage_defs =
  addZipkin_def addJaeger_def addLog_def buildReporters_def
  jaeger_NewRemoteReporter_def transport_NewHTTPTransport_def logCall_def

lemma Validate_None_iff: "Validate options = None \<longleftrightarrow> ZipkinURL options = '''' \<or> JaegerURL options = ''''"
  by (auto simp: Validate_def)

lemma buildReporters_fail:
  "ZipkinURL options \<noteq> '''' \<Longrightarrow> nz (ZipkinURL options) zipkinOptions = Inl cause \<Longrightarrow>
   buildReporters options nz w =
     Inl (fmt_Errorf ''could not build zipkin reporter: '' cause,
          w\<lparr>calls := calls w @ [Call_newZipkin (ZipkinURL options) zipkinOptions]\<rparr>)"
  by (simp add: stage_defs)

lemma buildReporters_ok:
  assumes "ZipkinURL options \<noteq> '''' \<Longrightarrow> nz (ZipkinURL options) zipkinOptions = Inr zt"
  shows "buildReporters options nz w =
     Inr ((if ZipkinURL options \<noteq> '''' then [RemoteReporter (ZipkinTransport zt)] else [])
          @ (if JaegerURL options \<noteq> ''''
             then [RemoteReporter (JaegerHTTPTransport (JaegerURL options) [transport_HTTPTimeout httpTimeout])]
             else [])
          @ (if LogTraceSpans options then [LoggerReporter logger] else []),
          w\<lparr>calls := calls w
             @ (if ZipkinURL options \<noteq> ''''
                then [Call_newZipkin (ZipkinURL options) zipkinOptions,
                      Call_NewRemoteReporter (ZipkinTransport zt)] else [])
             @ (if JaegerURL options \<noteq> ''''
                then [Call_NewHTTPTransport (JaegerURL options) [transport_HTTPTimeout httpTimeout],
                      Call_NewRemoteReporter (JaegerHTTPTransport (JaegerURL options) [transport_HTTPTimeout httpTimeout])]
                else [])\<rparr>)"
  using assms by (cases "ZipkinURL options = ''''") (simp_all add: stage_defs)

lemma Configure_configure:
  "Configure zipkin_NewHTTPTransport serviceName options w =
     configure serviceName options zipkin_NewHTTPTransport w"
  by (simp add: Configure_def)

lemma configure_invalid:
  "Validate options = Some err \<Longrightarrow> configure serviceName options nz w = ((None, Some err), w)"
  by (simp add: configure_def)

lemma configure_zipkin_fail:
  "Validate options = None \<Longrightarrow> ZipkinURL options \<noteq> '''' \<Longrightarrow>
   nz (ZipkinURL options) zipkinOptions = Inl cause \<Longrightarrow>
   configure serviceName options nz w =
     ((None, Some (fmt_Errorf ''could not build zipkin reporter: '' cause)),
      w\<lparr>calls := calls w @ [Call_newZipkin (ZipkinURL options) zipkinOptions]\<rparr>)"
  by (simp add: configure_def buildReporters_fail)

lemma configure_built:
  assumes "Validate options = None"
      and "buildReporters options nz w = Inr (rs, w1)"
  shows "configure serviceName options nz w =
     (if rs = [] then ((Some holder_zero, None), w1)
      else ((Some \<lparr>closer = Some (TracerCloser (length (tracers w1))),
                   tracer = JaegerTracer (length (tracers w1))\<rparr>, None),
            \<lparr>globalTracer = JaegerTracer (length (tracers w1)),
             tracers = tracers w1 @
               [\<lparr>t_serviceName = serviceName, t_sampler = sampler,
                 t_reporter = (if length rs = 1 then rs ! 0 else CompositeReporter rs),
                 t_options = tracerOptions\<rparr>],
             calls = calls w1
               @ (if length rs = 1 then [] else [Call_NewCompositeReporter rs])
               @ [Call_NewTracer (length (tracers w1)),
                  Call_SetGlobalTracer (JaegerTracer (length (tracers w1)))]\<rparr>))"
  using assms
  by (simp add: configure_def jaeger_NewCompositeReporter_def jaeger_NewTracer_def
      ot_SetGlobalTracer_def logCall_def Let_def)

lemma newCalls_append [simp]: "newCalls w (w'\<lparr>calls := calls w @ cs\<rparr>) = cs"
  by (simp add: newCalls_def)
lemma newCalls_append_rec [simp]: "newCalls w \<lparr>globalTracer = g, tracers = ts, calls = calls w @ cs\<rparr> = cs"
  by (simp add: newCalls_def)
lemma newCalls_same [simp]: "newCalls w w = []"
  by (simp add: newCalls_def)
lemma newTracers_append [simp]: "newTracers w \<lparr>globalTracer = g, tracers = tracers w @ ts, calls = cs\<rparr> = ts"
  by (simp add: newTracers_def)
lemma newTracers_same [simp]: "newTracers w (w\<lparr>calls := cs\<rparr>) = []" "newTracers w w = []"
  by (simp_all add: newTracers_def)

lemma configure_ok:
  assumes "Validate options = None"
      and "ZipkinURL options \<noteq> '''' \<Longrightarrow> nz (ZipkinURL options) zipkinOptions = Inr zt"
  shows "configure serviceName options nz w =
     (let rs = (if ZipkinURL options \<noteq> '''' then [RemoteReporter (ZipkinTransport zt)] else [])
          @ (if JaegerURL options \<noteq> ''''
             then [RemoteReporter (JaegerHTTPTransport (JaegerURL options) [transport_HTTPTimeout httpTimeout])]
             else [])
          @ (if LogTraceSpans options then [LoggerReporter logger] else []);
          cs = (if ZipkinURL options \<noteq> ''''
                then [Call_newZipkin (ZipkinURL options) zipkinOptions,
                      Call_NewRemoteReporter (ZipkinTransport zt)] else [])
             @ (if JaegerURL options \<noteq> ''''
                then [Call_NewHTTPTransport (JaegerURL options) [transport_HTTPTimeout httpTimeout],
                      Call_NewRemoteReporter (JaegerHTTPTransport (JaegerURL options) [transport_HTTPTimeout httpTimeout])]
                else []);
          p = length (tracers w)
      in if rs = [] then ((Some holder_zero, None), w\<lparr>calls := calls w @ cs\<rparr>)
         else ((Some \<lparr>closer = Some (TracerCloser p), tracer = JaegerTracer p\<rparr>, None),
               \<lparr>globalTracer = JaegerTracer p,
                tracers = tracers w @
                  [\<lparr>t_serviceName = serviceName, t_sampler = sampler,
                    t_reporter = (if length rs = 1 then rs ! 0 else CompositeReporter rs),
                    t_options = tracerOptions\<rparr>],
                calls = calls w @ cs
                  @ (if length rs = 1 then [] else [Call_NewCompositeReporter rs])
                  @ [Call_NewTracer p, Call_SetGlobalTracer (JaegerTracer p)]\<rparr>))"
  unfolding Let_def
  by (subst configure_built [OF assms(1) buildReporters_ok [of options nz zt w]])
     (use assms(2) in \<open>simp_all\<close>)

section \<open>Conflicting backends\<close>

text \<open>
  C1: when both URLs are non-empty, \<^verbatim>\<open>Validate\<close> returns the error of the conflict,
  and \<^verbatim>\<open>configure\<close> (so also \<^verbatim>\<open>Configure\<close>) returns a \<^verbatim>\<open>nil\<close> handle with that same
  error and leaves the whole state as it was: no constructor was called and the global
  tracer slot is untouched. For all other options \<^verbatim>\<open>Validate\<close> returns \<^verbatim>\<open>nil\<close>; it is
  a function of the options alone.
\<close>

theorem Validate_configure_conflict:
  "(ZipkinURL options \<noteq> '''' \<and> JaegerURL options \<noteq> '''' \<longrightarrow>
      Validate options = Some (Error ''can't have Jaeger and Zipkin outputs active simultaneously'')
      \<and> configure serviceName options nz w = ((None, Validate options), w)
      \<and> Configure nz serviceName options w = ((None, Validate options), w))
   \<and> (\<not> (ZipkinURL options \<noteq> '''' \<and> JaegerURL options \<noteq> '''') \<longrightarrow> Validate options = None)"
  by (auto simp: Validate_def configure_def Configure_def errors_New_def)

theorem Validate_configure_conflict_witness:
  "Validate bothURLs = Some (Error ''can't have Jaeger and Zipkin outputs active simultaneously'')
   \<and> Configure nz_ok ''myapp'' bothURLs initialWorld = ((None, Validate bothURLs), initialWorld)
   \<and> Validate zipkinOnly = None"
  using Validate_configure_conflict [of bothURLs "''myapp''" nz_ok initialWorld]
        Validate_configure_conflict [of zipkinOnly "''myapp''" nz_ok initialWorld]
  by (simp add: bothURLs_def zipkinOnly_def)

section \<open>Failure of the Zipkin constructor\<close>

text \<open>
  The Zipkin constructor is called in a \<^verbatim>\<open>configure\<close> call exactly when the options
  pass validation and the Zipkin URL is not empty, and then with that URL and the logger
  and timeout options.
\<close>

lemma newZipkin_called_iff:
  "Call_newZipkin url zopts \<in> set (newCalls w (snd (configure serviceName options nz w))) \<longleftrightarrow>
   Validate options = None \<and> ZipkinURL options \<noteq> '''' \<and> url = ZipkinURL options \<and> zopts = zipkinOptions"
proof (cases "Validate options")
  case (Some err)
  then show ?thesis by (simp add: configure_invalid)
next
  case None
  show ?thesis
  proof (cases "ZipkinURL options = ''''")
    case True
    then show ?thesis
      using configure_ok [OF None, of nz undefined serviceName w]
      by (auto simp: Let_def)
  next
    case False
    show ?thesis
    proof (cases "nz (ZipkinURL options) zipkinOptions")
      case (Inl cause)
      then show ?thesis using None False by (auto simp: configure_zipkin_fail)
    next
      case (Inr zt)
      then show ?thesis
        using configure_ok [OF None, of nz zt serviceName w] None False
        by (auto simp: Let_def)
    qed
  qed
qed

text \<open>
  C4: when the Zipkin constructor is called in a \<^verbatim>\<open>configure\<close> call and fails, the
  call returns a \<^verbatim>\<open>nil\<close> handle and an error whose message is the fixed prefix
  followed by the message of the cause. It returns at once: the call to the constructor
  is the only call made, no tracer object is allocated and the global tracer slot holds
  what it held before.
\<close>

theorem configure_zipkin_failure:
  assumes "configure serviceName options nz w = (res, w')"
      and "Call_newZipkin url zopts \<in> set (newCalls w w')"
      and "nz url zopts = Inl cause"
  shows "res = (None, Some (fmt_Errorf ''could not build zipkin reporter: '' cause))
       \<and> error_Error (fmt_Errorf ''could not build zipkin reporter: '' cause)
           = ''could not build zipkin reporter: '' @ error_Error cause
       \<and> url = ZipkinURL options \<and> ZipkinURL options \<noteq> ''''
       \<and> globalTracer w' = globalTracer w \<and> tracers w' = tracers w
       \<and> newCalls w w' = [Call_newZipkin url zopts]"
proof -
  have called: "Call_newZipkin url zopts \<in> set (newCalls w (snd (configure serviceName options nz w)))"
    using assms(1,2) by simp
  then have v: "Validate options = None" and z: "ZipkinURL options \<noteq> ''''"
    and u: "url = ZipkinURL options" and zo: "zopts = zipkinOptions"
    by (simp_all add: newZipkin_called_iff)
  from assms(3) u zo have "nz (ZipkinURL options) zipkinOptions = Inl cause" by simp
  from configure_zipkin_fail [where nz = nz and options = options and cause = cause
      and serviceName = serviceName and w = w, OF v z this] assms(1) u zo z
  show ?thesis by (auto simp: fmt_Errorf_def)
qed

theorem configure_zipkin_failure_witness:
  "configure ''myapp'' zipkinAndLog nz_failing initialWorld =
     ((None, Some (Error ''could not build zipkin reporter: unsupported protocol scheme'')),
      initialWorld\<lparr>calls := [Call_newZipkin ''http://zipkin:9411/api/v1/spans''
                                [zipkin_HTTPLogger SpanLogger, zipkin_HTTPTimeout 5000000000]]\<rparr>)"
proof -
  let ?w' = "initialWorld\<lparr>calls := [Call_newZipkin ''http://zipkin:9411/api/v1/spans''
                                [zipkin_HTTPLogger SpanLogger, zipkin_HTTPTimeout 5000000000]]\<rparr>"
  let ?res = "(None, Some (Error ''could not build zipkin reporter: unsupported protocol scheme''))"
  have run: "configure ''myapp'' zipkinAndLog nz_failing initialWorld = (?res, ?w')"
    by (simp add: configure_def Validate_def buildReporters_def addZipkin_def zipkinAndLog_def
        nz_failing_def initialWorld_def logCall_def zipkinOptions_def logger_def httpTimeout_def
        time_Second_def fmt_Errorf_def errors_New_def)
  have called: "Call_newZipkin ''http://zipkin:9411/api/v1/spans''
                  [zipkin_HTTPLogger SpanLogger, zipkin_HTTPTimeout 5000000000]
                \<in> set (newCalls initialWorld ?w')"
    by (simp add: newCalls_def initialWorld_def)
  have fails: "nz_failing ''http://zipkin:9411/api/v1/spans''
                 [zipkin_HTTPLogger SpanLogger, zipkin_HTTPTimeout 5000000000]
               = Inl (errors_New ''unsupported protocol scheme'')"
    by (simp add: nz_failing_def)
  from configure_zipkin_failure [OF run called fails] run show ?thesis by simp
qed


section \<open>The handle returned with an error\<close>

text \<open>
  C9: whenever \<^verbatim>\<open>configure\<close> returns an error, the handle it returns is \<^verbatim>\<open>nil\<close>, so
  a \<^verbatim>\<open>Close\<close> call on that handle is a nil pointer dereference and not a no-op. The
  usage sample makes this call in its error branch: for valid options that enable
  tracing, a failing \<^verbatim>\<open>Configure\<close> ends the sample with that panic.
\<close>

theorem configure_error_nil_handle:
  assumes "configure serviceName options nz w = ((h, err), w')"
      and "err \<noteq> None"
  shows "h = None
       \<and> io_Closer_Close h w' = (Inl NilPointerDereference, w')
       \<and> Configure nz serviceName options w = ((None, err), w')
       \<and> (Validate options = None \<and> TracingEnabled options \<and> serviceName = ''myapp''
            \<longrightarrow> setupTracing nz options w = (Exit_Panic NilPointerDereference, w'))"
proof -
  have hN: "h = None"
  proof (cases "Validate options")
    case (Some e)
    then show ?thesis using assms by (simp add: configure_invalid)
  next
    case None
    show ?thesis
    proof (cases "ZipkinURL options \<noteq> '''' \<and> (\<exists>cause. nz (ZipkinURL options) zipkinOptions = Inl cause)")
      case True
      then show ?thesis using assms None by (auto simp: configure_zipkin_fail)
    next
      case False
      then have "ZipkinURL options \<noteq> '''' \<Longrightarrow> nz (ZipkinURL options) zipkinOptions = Inr (projr (nz (ZipkinURL options) zipkinOptions))"
        by (cases "nz (ZipkinURL options) zipkinOptions") auto
      from configure_ok [where nz = nz and options = options and serviceName = serviceName
        and w = w and zt = "projr (nz (ZipkinURL options) zipkinOptions)", OF None this] assms
      show ?thesis by (auto simp: Let_def split: if_splits)
    qed
  qed
  with assms show ?thesis
    by (auto simp: io_Closer_Close_def Configure_def setupTracing_def)
qed

theorem configure_error_nil_handle_witness:
  "setupTracing nz_failing zipkinOnly initialWorld =
     (Exit_Panic NilPointerDereference,
      initialWorld\<lparr>calls := [Call_newZipkin ''http://zipkin:9411/api/v1/spans'' zipkinOptions]\<rparr>)"
proof -
  let ?w' = "initialWorld\<lparr>calls := [Call_newZipkin ''http://zipkin:9411/api/v1/spans'' zipkinOptions]\<rparr>"
  let ?e = "Some (Error ''could not build zipkin reporter: unsupported protocol scheme'')"
  have run: "configure ''myapp'' zipkinOnly nz_failing initialWorld = ((None, ?e), ?w')"
    by (simp add: configure_def Validate_def buildReporters_def addZipkin_def zipkinOnly_def
        nz_failing_def initialWorld_def logCall_def fmt_Errorf_def errors_New_def)
  have e: "?e \<noteq> None" by simp
  have v: "Validate zipkinOnly = None" by (simp add: Validate_def zipkinOnly_def)
  have t: "TracingEnabled zipkinOnly" by (simp add: TracingEnabled_def zipkinOnly_def)
  from configure_error_nil_handle [OF run e] v t show ?thesis by simp
qed

section \<open>The outcomes of a configure call\<close>

text \<open>
  A call either fails validation, or fails in the Zipkin constructor, or builds its
  reporters. A call that returns a handle either did nothing (no backend is enabled) or
  allocated a tracer at the next free address and installed it.
\<close>

lemma configure_cases [case_names invalid failed built]:
  obtains err where "Validate options = Some err"
  | cause where "Validate options = None" and "ZipkinURL options \<noteq> ''''"
      and "nz (ZipkinURL options) zipkinOptions = Inl cause"
  | zt where "Validate options = None"
      and "ZipkinURL options \<noteq> '''' \<Longrightarrow> nz (ZipkinURL options) zipkinOptions = Inr zt"
proof (cases "Validate options")
  case (Some err)
  then show ?thesis using that(1) by blast
next
  case None
  show ?thesis
  proof (cases "nz (ZipkinURL options) zipkinOptions")
    case (Inl cause)
    show ?thesis
    proof (cases "ZipkinURL options = ''''")
      case True
      then show ?thesis using that(3) [of undefined] None by simp
    next
      case False
      then show ?thesis using that(2) None Inl by blast
    qed
  next
    case (Inr zt)
    then show ?thesis using that(3) None by blast
  qed
qed

lemma configure_success_shape:
  assumes "configure serviceName options nz w = ((Some h, None), w')"
  shows "(\<not> TracingEnabled options \<and> h = holder_zero \<and> w' = w)
       \<or> (TracingEnabled options
           \<and> h = \<lparr>closer = Some (TracerCloser (length (tracers w))),
                   tracer = JaegerTracer (length (tracers w))\<rparr>
           \<and> globalTracer w' = JaegerTracer (length (tracers w))
           \<and> length (tracers w') = Suc (length (tracers w)))"
proof (cases rule: configure_cases [where options = options and nz = nz])
  case (invalid err)
  then show ?thesis using assms by (simp add: configure_invalid)
next
  case (failed cause)
  then show ?thesis using assms by (simp add: configure_zipkin_fail)
next
  case (built zt)
  from configure_ok [where nz = nz and options = options and serviceName = serviceName
      and w = w and zt = zt, OF built] assms
  show ?thesis
    by (auto simp: Let_def TracingEnabled_def split: if_splits)
qed

lemma holder_Close_globalTracer:
  "globalTracer (snd (holder_Close h w)) =
     (if globalTracer w = tracer h then NoopTracer else globalTracer w)"
  by (simp add: holder_Close_def ot_GlobalTracer_def ot_SetGlobalTracer_def closer_Close_def
      logCall_def Let_def split: option.splits)

lemma holder_Close_calls:
  "calls (snd (holder_Close h w)) =
     calls w
     @ (if globalTracer w = tracer h then [Call_SetGlobalTracer NoopTracer] else [])
     @ (case closer h of None \<Rightarrow> [] | Some c \<Rightarrow> [Call_Close c])"
  by (simp add: holder_Close_def ot_GlobalTracer_def ot_SetGlobalTracer_def closer_Close_def
      logCall_def Let_def split: option.splits)

lemma holder_Close_tracers: "tracers (snd (holder_Close h w)) = tracers w"
  by (simp add: holder_Close_def ot_GlobalTracer_def ot_SetGlobalTracer_def closer_Close_def
      logCall_def Let_def split: option.splits)

lemma holder_Close_result: "fst (holder_Close h w) = None"
  by (simp add: holder_Close_def Let_def)

lemma holder_Close_later_configure:
  assumes A: "configure snA optsA nzA w0 = ((Some hA, None), wA)"
      and B: "configure snB optsB nzB wA = ((Some hB, None), wB)"
      and en: "TracingEnabled optsB"
  shows "globalTracer wB = tracer hB" and "tracer hB \<noteq> NoopTracer" and "tracer hA \<noteq> tracer hB"
proof -
  from configure_success_shape [OF B] en
  have hB: "tracer hB = JaegerTracer (length (tracers wA))"
    and gB: "globalTracer wB = JaegerTracer (length (tracers wA))"
    by auto
  from configure_success_shape [OF A]
  have hA: "tracer hA = NilTracer \<or> (tracer hA = JaegerTracer (length (tracers w0))
              \<and> length (tracers wA) = Suc (length (tracers w0)))"
    by (auto simp: holder_zero_def)
  show "globalTracer wB = tracer hB" using hB gB by simp
  show "tracer hB \<noteq> NoopTracer" using hB by simp
  show "tracer hA \<noteq> tracer hB" using hA hB by auto
qed


section \<open>Evaluating the concrete calls\<close>

lemmas run_defs =
  configure_def Validate_def TracingEnabled_def buildReporters_def addZipkin_def addJaeger_def
  addLog_def logCall_def zipkinOptions_def logger_def httpTimeout_def time_Second_def
  jaeger_NewRemoteReporter_def transport_NewHTTPTransport_def jaeger_NewCompositeReporter_def
  jaeger_NewTracer_def ot_SetGlobalTracer_def sampler_def tracerOptions_def poolSpans_def
  holder_zero_def fmt_Errorf_def errors_New_def Let_def
  zipkinOnly_def jaegerOnly_def zipkinAndLog_def bothURLs_def noOptions_def
  nz_ok_def nz_failing_def initialWorld_def

lemma resultA_handle:
  "fst resultA = (Some \<lparr>closer = Some (TracerCloser 0), tracer = JaegerTracer 0\<rparr>, None)"
  by (simp add: resultA_def run_defs)

lemma resultA_world:
  "globalTracer (snd resultA) = JaegerTracer 0" "length (tracers (snd resultA)) = 1"
  by (simp_all add: resultA_def run_defs)

lemma resultB_handle:
  "fst resultB = (Some \<lparr>closer = Some (TracerCloser 1), tracer = JaegerTracer 1\<rparr>, None)"
  by (simp add: resultB_def resultA_def run_defs)

text \<open>
  The scenario of a single Zipkin backend, from the initial state: the call installs one
  tracer whose reporter is the Zipkin reporter.
\<close>

lemma configure_zipkinOnly_initial:
  "configure ''a'' zipkinOnly nz_ok initialWorld =
     ((Some \<lparr>closer = Some (TracerCloser 0), tracer = JaegerTracer 0\<rparr>, None),
      \<lparr>globalTracer = JaegerTracer 0,
       tracers = [\<lparr>t_serviceName = ''a'', t_sampler = ConstSampler True,
                  t_reporter = RemoteReporter (ZipkinTransport
                    (ZipkinHTTPTransport ''http://zipkin:9411/api/v1/spans''
                       [zipkin_HTTPLogger SpanLogger, zipkin_HTTPTimeout 5000000000])),
                  t_options = [PoolSpans False,
                               Injector HTTPHeaders ZipkinB3HTTPHeaderPropagator,
                               Extractor HTTPHeaders ZipkinB3HTTPHeaderPropagator]\<rparr>],
       calls = [Call_newZipkin ''http://zipkin:9411/api/v1/spans''
                  [zipkin_HTTPLogger SpanLogger, zipkin_HTTPTimeout 5000000000],
                Call_NewRemoteReporter (ZipkinTransport
                    (ZipkinHTTPTransport ''http://zipkin:9411/api/v1/spans''
                       [zipkin_HTTPLogger SpanLogger, zipkin_HTTPTimeout 5000000000])),
                Call_NewTracer 0, Call_SetGlobalTracer (JaegerTracer 0)]\<rparr>)"
  by (simp add: configure_def Validate_def buildReporters_def addZipkin_def addJaeger_def
      addLog_def zipkinOnly_def nz_ok_def initialWorld_def logCall_def zipkinOptions_def
      logger_def httpTimeout_def time_Second_def jaeger_NewRemoteReporter_def
      jaeger_NewTracer_def ot_SetGlobalTracer_def sampler_def tracerOptions_def poolSpans_def
      Let_def)


section \<open>Ownership of the global tracer slot\<close>

text \<open>
  C2: \<^verbatim>\<open>Close\<close> of any holder in any state returns \<^verbatim>\<open>nil\<close>. It sets the global
  tracer slot to the no-op tracer exactly when the slot holds the tracer of the holder,
  and otherwise leaves the slot alone; it calls \<^verbatim>\<open>Close\<close> on the closer of the holder
  whenever the holder has one, whatever the slot holds; it allocates nothing. A second
  \<^verbatim>\<open>Close\<close> leaves the slot as the first one left it. After a \<^verbatim>\<open>configure\<close> call A
  and a later \<^verbatim>\<open>configure\<close> call B that installed a tracer, closing the handle of A
  leaves the tracer of B in the slot, and closing the handle of B resets the slot to the
  no-op tracer.
\<close>

theorem holder_Close_ownership:
  "fst (holder_Close h w) = None
   \<and> globalTracer (snd (holder_Close h w)) =
       (if globalTracer w = tracer h then NoopTracer else globalTracer w)
   \<and> tracers (snd (holder_Close h w)) = tracers w
   \<and> calls (snd (holder_Close h w)) =
       calls w
       @ (if globalTracer w = tracer h then [Call_SetGlobalTracer NoopTracer] else [])
       @ (case closer h of None \<Rightarrow> [] | Some c \<Rightarrow> [Call_Close c])
   \<and> globalTracer (snd (holder_Close h (snd (holder_Close h w)))) =
       globalTracer (snd (holder_Close h w))
   \<and> (configure snA optsA nzA w0 = ((Some hA, None), wA)
        \<and> configure snB optsB nzB wA = ((Some hB, None), wB)
        \<and> TracingEnabled optsB
      \<longrightarrow> globalTracer wB = tracer hB \<and> tracer hB \<noteq> NoopTracer
          \<and> globalTracer (snd (holder_Close hA wB)) = tracer hB
          \<and> globalTracer (snd (holder_Close hB wB)) = NoopTracer)"
proof -
  have twice: "globalTracer (snd (holder_Close h (snd (holder_Close h w)))) =
       globalTracer (snd (holder_Close h w))"
    by (simp add: holder_Close_globalTracer)
  have later: "configure snA optsA nzA w0 = ((Some hA, None), wA)
        \<and> configure snB optsB nzB wA = ((Some hB, None), wB)
        \<and> TracingEnabled optsB
      \<longrightarrow> globalTracer wB = tracer hB \<and> tracer hB \<noteq> NoopTracer
          \<and> globalTracer (snd (holder_Close hA wB)) = tracer hB
          \<and> globalTracer (snd (holder_Close hB wB)) = NoopTracer"
  proof (intro impI, elim conjE)
    assume A: "configure snA optsA nzA w0 = ((Some hA, None), wA)"
      and B: "configure snB optsB nzB wA = ((Some hB, None), wB)"
      and en: "TracingEnabled optsB"
    from holder_Close_later_configure [OF A B en]
    show "globalTracer wB = tracer hB \<and> tracer hB \<noteq> NoopTracer
          \<and> globalTracer (snd (holder_Close hA wB)) = tracer hB
          \<and> globalTracer (snd (holder_Close hB wB)) = NoopTracer"
      by (simp add: holder_Close_globalTracer)
  qed
  from holder_Close_result [of h w] holder_Close_globalTracer [of h w]
    holder_Close_tracers [of h w] holder_Close_calls [of h w] twice later
  show ?thesis by blast
qed

theorem holder_Close_ownership_witness:
  "globalTracer (snd resultB) = JaegerTracer 1
   \<and> globalTracer (snd (holder_Close \<lparr>closer = Some (TracerCloser 0), tracer = JaegerTracer 0\<rparr>
        (snd resultB))) = JaegerTracer 1
   \<and> globalTracer (snd (holder_Close \<lparr>closer = Some (TracerCloser 1), tracer = JaegerTracer 1\<rparr>
        (snd resultB))) = NoopTracer"
proof -
  let ?hA = "\<lparr>closer = Some (TracerCloser 0), tracer = JaegerTracer 0\<rparr>"
  let ?hB = "\<lparr>closer = Some (TracerCloser 1), tracer = JaegerTracer 1\<rparr>"
  have A: "configure ''a'' zipkinOnly nz_ok initialWorld = ((Some ?hA, None), snd resultA)"
    using resultA_handle by (simp add: resultA_def prod_eq_iff)
  have B: "configure ''b'' jaegerOnly nz_ok (snd resultA) = ((Some ?hB, None), snd resultB)"
    using resultB_handle by (simp add: resultB_def prod_eq_iff)
  have en: "TracingEnabled jaegerOnly"
    by (simp add: TracingEnabled_def jaegerOnly_def)
  from holder_Close_ownership [where h = ?hB and w = "snd resultB" and snA = "''a''"
      and optsA = zipkinOnly and nzA = nz_ok and w0 = initialWorld and hA = ?hA
      and wA = "snd resultA" and snB = "''b''" and optsB = jaegerOnly and nzB = nz_ok
      and hB = ?hB and wB = "snd resultB"] A B en
  show ?thesis by simp
qed


section \<open>No backend enabled\<close>

text \<open>
  The zero holder compares its \<^verbatim>\<open>nil\<close> tracer with the global slot, so its
  \<^verbatim>\<open>Close\<close> writes the slot when the slot holds \<^verbatim>\<open>nil\<close>.
\<close>

lemma holder_zero_Close_nil_slot:
  "holder_Close holder_zero (w\<lparr>globalTracer := NilTracer\<rparr>) =
     (None, w\<lparr>globalTracer := NoopTracer, calls := calls w @ [Call_SetGlobalTracer NoopTracer]\<rparr>)"
  by (simp add: holder_Close_def holder_zero_def ot_GlobalTracer_def ot_SetGlobalTracer_def
      logCall_def)

text \<open>
  C5, as amended: for options with both URLs empty and the log switch off,
  \<^verbatim>\<open>TracingEnabled\<close> is false and \<^verbatim>\<open>configure\<close> succeeds without any effect: it
  builds nothing and leaves the global tracer slot as it was, and it returns the zero
  holder, which has no closer and no tracer. \<^verbatim>\<open>Close\<close> of that holder changes nothing
  in any state whose global slot is not \<^verbatim>\<open>nil\<close>.
\<close>

theorem configure_disabled:
  assumes "ZipkinURL options = ''''" and "JaegerURL options = ''''"
      and "\<not> LogTraceSpans options"
  shows "\<not> TracingEnabled options
       \<and> configure serviceName options nz w = ((Some holder_zero, None), w)
       \<and> closer holder_zero = None \<and> tracer holder_zero = NilTracer
       \<and> (globalTracer w2 \<noteq> NilTracer \<longrightarrow> holder_Close holder_zero w2 = (None, w2))"
  using assms
  by (simp add: TracingEnabled_def configure_def Validate_def buildReporters_def addZipkin_def
      addJaeger_def addLog_def holder_zero_def holder_Close_def ot_GlobalTracer_def)

theorem configure_disabled_witness:
  "\<not> TracingEnabled noOptions
   \<and> configure ''myapp'' noOptions nz_ok (snd resultA) = ((Some holder_zero, None), snd resultA)
   \<and> holder_Close holder_zero (snd resultA) = (None, snd resultA)"
proof -
  have 1: "ZipkinURL noOptions = ''''" and 2: "JaegerURL noOptions = ''''"
    and 3: "\<not> LogTraceSpans noOptions"
    by (simp_all add: noOptions_def)
  from configure_disabled [OF 1 2 3, where serviceName = "''myapp''" and nz = nz_ok
      and w = "snd resultA" and ?w2.0 = "snd resultA"] resultA_world(1)
  show ?thesis by simp
qed

text \<open>
  The claim as first stated says that the call installs a no-op tracer. After an earlier
  call that installed a tracer, the call with no backend enabled leaves that tracer in
  the global slot.
\<close>

theorem configure_disabled_counterexample:
  "\<not> (globalTracer (snd (configure ''myapp'' noOptions nz_ok (snd resultA))) = NoopTracer)"
  by (simp add: resultA_def run_defs)

section \<open>Composition of the reporters\<close>

text \<open>The loop of the composite reporter visits the members from first to last.\<close>

lemma reporters_Report_concat:
  "reporters_Report rs sp = concat (map (\<lambda>r. reporter_Report r sp) rs)"
  by (induction rs) simp_all

lemma reporters_Close_concat:
  "reporters_Close rs = concat (map reporter_Close rs)"
  by (induction rs) simp_all

text \<open>
  C3: when the Zipkin constructor, if it is called, yields a transport, the three
  statements fill the slice in the fixed order Zipkin reporter, Jaeger reporter, span
  logger, each present exactly when its option enables it. For valid options: with no
  reporter no tracer is built; with exactly one reporter that reporter itself is the
  reporter of the one tracer built and no composite is constructed; with more than one
  the reporter of the tracer is the single composite of the whole slice. Reporting a
  span through the composite, and closing it, has the effects of its members in the order
  of the slice.
\<close>

theorem configure_reporter_composition:
  assumes "ZipkinURL options \<noteq> '''' \<Longrightarrow> nz (ZipkinURL options) zipkinOptions = Inr zt"
  shows "let rs = (if ZipkinURL options \<noteq> '''' then [RemoteReporter (ZipkinTransport zt)] else [])
            @ (if JaegerURL options \<noteq> ''''
               then [RemoteReporter (JaegerHTTPTransport (JaegerURL options)
                                       [transport_HTTPTimeout httpTimeout])]
               else [])
            @ (if LogTraceSpans options then [LoggerReporter logger] else []);
             w' = snd (configure serviceName options nz w)
         in (\<exists>w1. buildReporters options nz w = Inr (rs, w1))
          \<and> (Validate options = None \<and> rs = [] \<longrightarrow> newTracers w w' = [])
          \<and> (Validate options = None \<and> length rs = 1 \<longrightarrow>
                map t_reporter (newTracers w w') = [rs ! 0]
                \<and> (\<forall>ms. Call_NewCompositeReporter ms \<notin> set (newCalls w w')))
          \<and> (Validate options = None \<and> 1 < length rs \<longrightarrow>
                map t_reporter (newTracers w w') = [CompositeReporter rs]
                \<and> Call_NewCompositeReporter rs \<in> set (newCalls w w'))
          \<and> reporter_Report (CompositeReporter rs) sp = concat (map (\<lambda>r. reporter_Report r sp) rs)
          \<and> reporter_Close (CompositeReporter rs) = concat (map reporter_Close rs)"
proof -
  have built: "\<exists>w1. buildReporters options nz w =
      Inr ((if ZipkinURL options \<noteq> '''' then [RemoteReporter (ZipkinTransport zt)] else [])
            @ (if JaegerURL options \<noteq> ''''
               then [RemoteReporter (JaegerHTTPTransport (JaegerURL options)
                                       [transport_HTTPTimeout httpTimeout])]
               else [])
            @ (if LogTraceSpans options then [LoggerReporter logger] else []), w1)"
    using buildReporters_ok [where nz = nz and options = options and zt = zt and w = w, OF assms]
    by blast
  have conf: "Validate options = None \<Longrightarrow> configure serviceName options nz w = (let rs = (if ZipkinURL options \<noteq> '''' then [RemoteReporter (ZipkinTransport zt)] else [])
          @ (if JaegerURL options \<noteq> ''''
             then [RemoteReporter (JaegerHTTPTransport (JaegerURL options) [transport_HTTPTimeout httpTimeout])]
             else [])
          @ (if LogTraceSpans options then [LoggerReporter logger] else []);
          cs = (if ZipkinURL options \<noteq> ''''
                then [Call_newZipkin (ZipkinURL options) zipkinOptions,
                      Call_NewRemoteReporter (ZipkinTransport zt)] else [])
             @ (if JaegerURL options \<noteq> ''''
                then [Call_NewHTTPTransport (JaegerURL options) [transport_HTTPTimeout httpTimeout],
                      Call_NewRemoteReporter (JaegerHTTPTransport (JaegerURL options) [transport_HTTPTimeout httpTimeout])]
                else []);
          p = length (tracers w)
      in if rs = [] then ((Some holder_zero, None), w\<lparr>calls := calls w @ cs\<rparr>)
         else ((Some \<lparr>closer = Some (TracerCloser p), tracer = JaegerTracer p\<rparr>, None),
               \<lparr>globalTracer = JaegerTracer p,
                tracers = tracers w @
                  [\<lparr>t_serviceName = serviceName, t_sampler = sampler,
                    t_reporter = (if length rs = 1 then rs ! 0 else CompositeReporter rs),
                    t_options = tracerOptions\<rparr>],
                calls = calls w @ cs
                  @ (if length rs = 1 then [] else [Call_NewCompositeReporter rs])
                  @ [Call_NewTracer p, Call_SetGlobalTracer (JaegerTracer p)]\<rparr>))"
    using configure_ok [where nz = nz and options = options and zt = zt and w = w
        and serviceName = serviceName] assms by blast
  show ?thesis
    unfolding Let_def
  proof (intro conjI impI)
    show "\<exists>w1. buildReporters options nz w =
      Inr ((if ZipkinURL options \<noteq> '''' then [RemoteReporter (ZipkinTransport zt)] else [])
            @ (if JaegerURL options \<noteq> ''''
               then [RemoteReporter (JaegerHTTPTransport (JaegerURL options)
                                       [transport_HTTPTimeout httpTimeout])]
               else [])
            @ (if LogTraceSpans options then [LoggerReporter logger] else []), w1)"
      by (rule built)
  qed (auto simp: conf Let_def reporters_Report_concat reporters_Close_concat split: if_splits)
qed

theorem configure_reporter_composition_witness:
  "newTracers initialWorld (snd (configure ''myapp'' noOptions nz_ok initialWorld)) = []
   \<and> map t_reporter (newTracers initialWorld (snd (configure ''myapp'' zipkinOnly nz_ok initialWorld)))
       = [RemoteReporter (ZipkinTransport (ZipkinHTTPTransport (ZipkinURL zipkinOnly) zipkinOptions))]
   \<and> map t_reporter (newTracers initialWorld (snd (configure ''myapp'' zipkinAndLog nz_ok initialWorld)))
       = [CompositeReporter
            [RemoteReporter (ZipkinTransport (ZipkinHTTPTransport (ZipkinURL zipkinAndLog) zipkinOptions)),
             LoggerReporter logger]]
   \<and> reporter_Report
         (CompositeReporter
            [RemoteReporter (ZipkinTransport (ZipkinHTTPTransport (ZipkinURL zipkinAndLog) zipkinOptions)),
             LoggerReporter logger]) spanGet
       = [Transport_Send (ZipkinTransport (ZipkinHTTPTransport (ZipkinURL zipkinAndLog) zipkinOptions)) spanGet,
          Glog_Infof ''Reporting span operation: GET / span: 1:2:0:1'']
   \<and> reporter_Close
         (CompositeReporter
            [RemoteReporter (ZipkinTransport (ZipkinHTTPTransport (ZipkinURL zipkinAndLog) zipkinOptions)),
             LoggerReporter logger])
       = [Transport_Close (ZipkinTransport (ZipkinHTTPTransport (ZipkinURL zipkinAndLog) zipkinOptions))]"
proof -
  have v: "Validate noOptions = None" "Validate zipkinOnly = None" "Validate zipkinAndLog = None"
    by (simp_all add: Validate_def noOptions_def zipkinOnly_def zipkinAndLog_def)
  have f: "ZipkinURL noOptions = ''''" "JaegerURL noOptions = ''''" "\<not> LogTraceSpans noOptions"
    "ZipkinURL zipkinOnly \<noteq> ''''" "JaegerURL zipkinOnly = ''''" "\<not> LogTraceSpans zipkinOnly"
    "ZipkinURL zipkinAndLog \<noteq> ''''" "JaegerURL zipkinAndLog = ''''" "LogTraceSpans zipkinAndLog"
    by (simp_all add: noOptions_def zipkinOnly_def zipkinAndLog_def)
  have nz: "nz_ok (ZipkinURL opts) zipkinOptions = Inr (ZipkinHTTPTransport (ZipkinURL opts) zipkinOptions)"
    for opts :: Options by (simp add: nz_ok_def)
  from configure_reporter_composition [where options = noOptions and nz = nz_ok
      and zt = "ZipkinHTTPTransport (ZipkinURL noOptions) zipkinOptions"
      and serviceName = "''myapp''" and w = initialWorld and sp = spanGet, OF nz]
  have 1: "newTracers initialWorld (snd (configure ''myapp'' noOptions nz_ok initialWorld)) = []"
    using v f by (simp add: Let_def)
  from configure_reporter_composition [where options = zipkinOnly and nz = nz_ok
      and zt = "ZipkinHTTPTransport (ZipkinURL zipkinOnly) zipkinOptions"
      and serviceName = "''myapp''" and w = initialWorld and sp = spanGet, OF nz]
  have 2: "map t_reporter (newTracers initialWorld (snd (configure ''myapp'' zipkinOnly nz_ok initialWorld)))
       = [RemoteReporter (ZipkinTransport (ZipkinHTTPTransport (ZipkinURL zipkinOnly) zipkinOptions))]"
    using v f by (simp add: Let_def)
  from configure_reporter_composition [where options = zipkinAndLog and nz = nz_ok
      and zt = "ZipkinHTTPTransport (ZipkinURL zipkinAndLog) zipkinOptions"
      and serviceName = "''myapp''" and w = initialWorld and sp = spanGet, OF nz]
  have 3: "map t_reporter (newTracers initialWorld (snd (configure ''myapp'' zipkinAndLog nz_ok initialWorld)))
       = [CompositeReporter
            [RemoteReporter (ZipkinTransport (ZipkinHTTPTransport (ZipkinURL zipkinAndLog) zipkinOptions)),
             LoggerReporter logger]]"
    and 4: "reporter_Report
         (CompositeReporter
            [RemoteReporter (ZipkinTransport (ZipkinHTTPTransport (ZipkinURL zipkinAndLog) zipkinOptions)),
             LoggerReporter logger]) spanGet
       = [Transport_Send (ZipkinTransport (ZipkinHTTPTransport (ZipkinURL zipkinAndLog) zipkinOptions)) spanGet,
          Glog_Infof ''Reporting span operation: GET / span: 1:2:0:1'']"
    and 5: "reporter_Close
         (CompositeReporter
            [RemoteReporter (ZipkinTransport (ZipkinHTTPTransport (ZipkinURL zipkinAndLog) zipkinOptions)),
             LoggerReporter logger])
       = [Transport_Close (ZipkinTransport (ZipkinHTTPTransport (ZipkinURL zipkinAndLog) zipkinOptions))]"
    using v f by (simp_all add: Let_def spanLogger_Report_def spanLogger_Close_def spanGet_def)
  from 1 2 3 4 5 show ?thesis by blast
qed


section \<open>Size of the reporter slice\<close>

text \<open>
  C10: for options that pass validation the slice of reporters has at most two elements,
  and every composite reporter that \<^verbatim>\<open>configure\<close> constructs or gives to a tracer has
  exactly two members: a remote reporter around the transport of a URL backend, followed
  by the span logger.
\<close>

theorem reporters_at_most_two:
  assumes "Validate options = None"
  shows "(\<forall>rs w1. buildReporters options nz w = Inr (rs, w1) \<longrightarrow> length rs \<le> 2)
       \<and> (\<forall>ms. Call_NewCompositeReporter ms \<in> set (newCalls w (snd (configure serviceName options nz w)))
              \<longrightarrow> (\<exists>t. ms = [RemoteReporter t, LoggerReporter logger]))
       \<and> (\<forall>obj ms. obj \<in> set (newTracers w (snd (configure serviceName options nz w)))
                    \<and> t_reporter obj = CompositeReporter ms
              \<longrightarrow> (\<exists>t. ms = [RemoteReporter t, LoggerReporter logger]))"
proof (cases rule: configure_cases [where options = options and nz = nz])
  case (invalid err)
  then show ?thesis using assms by simp
next
  case (failed cause)
  then show ?thesis
    by (simp add: configure_zipkin_fail buildReporters_fail)
next
  case (built zt)
  have urls: "ZipkinURL options = '''' \<or> JaegerURL options = ''''"
    using assms by (simp add: Validate_None_iff)
  from buildReporters_ok [where nz = nz and options = options and zt = zt and w = w, OF built(2)]
  have 1: "\<forall>rs w1. buildReporters options nz w = Inr (rs, w1) \<longrightarrow> length rs \<le> 2"
    using urls by auto
  from configure_ok [where nz = nz and options = options and zt = zt and w = w
      and serviceName = serviceName, OF built]
  have 2: "\<forall>ms. Call_NewCompositeReporter ms \<in> set (newCalls w (snd (configure serviceName options nz w)))
              \<longrightarrow> (\<exists>t. ms = [RemoteReporter t, LoggerReporter logger])"
    and 3: "\<forall>obj ms. obj \<in> set (newTracers w (snd (configure serviceName options nz w)))
                    \<and> t_reporter obj = CompositeReporter ms
              \<longrightarrow> (\<exists>t. ms = [RemoteReporter t, LoggerReporter logger])"
    using urls by (auto simp: Let_def split: if_splits)
  from 1 2 3 show ?thesis by blast
qed

theorem reporters_at_most_two_witness:
  "\<exists>rs w1. buildReporters zipkinAndLog nz_ok initialWorld = Inr (rs, w1) \<and> length rs \<le> 2
     \<and> Call_NewCompositeReporter rs
         \<in> set (newCalls initialWorld (snd (configure ''myapp'' zipkinAndLog nz_ok initialWorld)))
     \<and> (\<exists>t. rs = [RemoteReporter t, LoggerReporter logger])"
proof -
  have v: "Validate zipkinAndLog = None"
    by (simp add: Validate_def zipkinAndLog_def)
  let ?rs = "[RemoteReporter (ZipkinTransport (ZipkinHTTPTransport (ZipkinURL zipkinAndLog) zipkinOptions)),
              LoggerReporter logger]"
  have "\<exists>w1. buildReporters zipkinAndLog nz_ok initialWorld = Inr (?rs, w1)"
    by (simp add: stage_defs nz_ok_def zipkinAndLog_def)
  then obtain w1 where b: "buildReporters zipkinAndLog nz_ok initialWorld = Inr (?rs, w1)" ..
  have c: "Call_NewCompositeReporter ?rs
         \<in> set (newCalls initialWorld (snd (configure ''myapp'' zipkinAndLog nz_ok initialWorld)))"
    by (simp add: newCalls_def run_defs)
  from reporters_at_most_two [OF v, where nz = nz_ok and w = initialWorld
      and serviceName = "''myapp''"] b c
  show ?thesis by blast
qed


section \<open>The Jaeger path and the timeout\<close>

text \<open>
  C6: with an empty Zipkin URL \<^verbatim>\<open>configure\<close> returns no error, whatever the Zipkin
  constructor would do. The timeout is five seconds, in nanoseconds. Every call to the
  Zipkin constructor gets the Zipkin URL with the logger and that timeout, every call to
  the Jaeger transport constructor gets the Jaeger URL with that same timeout, and these
  calls are made: the first for valid options with a Zipkin URL, the second for options
  with a Jaeger URL and no Zipkin URL.
\<close>

theorem configure_no_error_without_zipkin:
  "(ZipkinURL options = '''' \<longrightarrow> snd (fst (configure serviceName options nz w)) = None)
   \<and> httpTimeout = 5 * 1000000000
   \<and> (\<forall>u os. Call_newZipkin u os \<in> set (newCalls w (snd (configure serviceName options nz w)))
         \<longrightarrow> u = ZipkinURL options \<and> os = [zipkin_HTTPLogger logger, zipkin_HTTPTimeout httpTimeout])
   \<and> (\<forall>u os. Call_NewHTTPTransport u os \<in> set (newCalls w (snd (configure serviceName options nz w)))
         \<longrightarrow> u = JaegerURL options \<and> os = [transport_HTTPTimeout httpTimeout])
   \<and> (Validate options = None \<and> ZipkinURL options \<noteq> '''' \<longrightarrow>
         Call_newZipkin (ZipkinURL options) [zipkin_HTTPLogger logger, zipkin_HTTPTimeout httpTimeout]
           \<in> set (newCalls w (snd (configure serviceName options nz w))))
   \<and> (ZipkinURL options = '''' \<and> JaegerURL options \<noteq> '''' \<longrightarrow>
         Call_NewHTTPTransport (JaegerURL options) [transport_HTTPTimeout httpTimeout]
           \<in> set (newCalls w (snd (configure serviceName options nz w))))"
proof (cases rule: configure_cases [where options = options and nz = nz])
  case (invalid err)
  then have "ZipkinURL options \<noteq> ''''" "JaegerURL options \<noteq> ''''"
    by (auto simp: Validate_def split: if_splits)
  with invalid show ?thesis
    by (simp add: configure_invalid httpTimeout_def time_Second_def)
next
  case (failed cause)
  then show ?thesis
    by (simp add: configure_zipkin_fail httpTimeout_def time_Second_def zipkinOptions_def)
next
  case (built zt)
  from configure_ok [where nz = nz and options = options and zt = zt and w = w
      and serviceName = serviceName, OF built]
  show ?thesis
    by (auto simp: Let_def zipkinOptions_def time_Second_def httpTimeout_def split: if_splits)
qed

theorem configure_no_error_without_zipkin_witness:
  "snd (fst (configure ''myapp'' jaegerOnly nz_failing initialWorld)) = None
   \<and> Call_NewHTTPTransport ''http://jaeger:14268/api/traces?format=jaeger.thrift''
        [transport_HTTPTimeout 5000000000]
       \<in> set (newCalls initialWorld (snd (configure ''myapp'' jaegerOnly nz_failing initialWorld)))
   \<and> Call_newZipkin ''http://zipkin:9411/api/v1/spans''
        [zipkin_HTTPLogger SpanLogger, zipkin_HTTPTimeout 5000000000]
       \<in> set (newCalls initialWorld (snd (configure ''myapp'' zipkinOnly nz_ok initialWorld)))"
proof -
  have j: "ZipkinURL jaegerOnly = ''''"
    "JaegerURL jaegerOnly = ''http://jaeger:14268/api/traces?format=jaeger.thrift''"
    by (simp_all add: jaegerOnly_def)
  have z: "Validate zipkinOnly = None" "ZipkinURL zipkinOnly = ''http://zipkin:9411/api/v1/spans''"
    by (simp_all add: Validate_def zipkinOnly_def)
  have t: "httpTimeout = 5000000000" "logger = SpanLogger"
    by (simp_all add: httpTimeout_def time_Second_def logger_def)
  from configure_no_error_without_zipkin [where options = jaegerOnly and nz = nz_failing
      and serviceName = "''myapp''" and w = initialWorld]
    configure_no_error_without_zipkin [where options = zipkinOnly and nz = nz_ok
      and serviceName = "''myapp''" and w = initialWorld]
    j z t
  show ?thesis by simp
qed

section \<open>Sampling, propagation and pooling\<close>






end
